theory Spec2Isabelle
  imports Main "HOL-Library.AList" "HOL-Library.Option_ord"
begin

section \<open>NSE insider-trading scraper: data model\<close>

text \<open>
  The embedding follows \<^verbatim>\<open>src/cron_script.py\<close> (the continuous scraper) and, for the
  fetch operation, also \<^verbatim>\<open>src/main.py\<close> (the one-shot scraper). The scraper is written
  against pandas, requests and the operating system; what those libraries compute is not
  part of the repository, so it enters the model as the fields of an environment record
  (\<open>env\<close>) about which nothing is assumed. What the repository's own code does with the
  results (its control flow, its exception handlers, the identity key, the date window,
  the file operations it issues) is modelled concretely.
\<close>

subsection \<open>Time\<close>

text \<open>
  A \<^verbatim>\<open>datetime\<close> (and a pandas \<^verbatim>\<open>Timestamp\<close>, its subclass) is a naive point in time,
  counted in nanoseconds; \<^verbatim>\<open>timedelta(days=n)\<close> is \<open>n\<close> days of nanoseconds.
\<close>

type_synonym datetime = int

definition timedelta_days :: "int \<Rightarrow> int" where
  "timedelta_days n = n * 86400000000000"

subsection \<open>Exceptions\<close>

datatype exn = Exception string | ImportError | JSONDecodeError

subsection \<open>DataFrames\<close>

text \<open>
  A cell of a DataFrame: a missing value (\<^verbatim>\<open>None\<close>, \<^verbatim>\<open>NaN\<close>, \<^verbatim>\<open>NaT\<close>, \<^verbatim>\<open>pd.NA\<close>: everything
  \<^verbatim>\<open>pd.notna\<close> rejects), a timestamp, a Python string, or another scalar (a number, a
  boolean) of a type \<open>'a\<close> left open.
\<close>

datatype 'a cell = NA | Timestamp datetime | Str string | Val 'a

definition notna :: "'a cell \<Rightarrow> bool" where
  "notna v = (v \<noteq> NA)"

text \<open>
  A row is what \<^verbatim>\<open>DataFrame.apply(f, axis=1)\<close> hands to \<open>f\<close>: a Series whose index is the
  column names. \<^verbatim>\<open>field in row.index\<close> is \<open>map_of row field \<noteq> None\<close> and
  \<^verbatim>\<open>row[field]\<close> is the value found. A DataFrame keeps its column names apart from its
  rows, since a frame read from a header-only file has columns and no rows.
\<close>

type_synonym 'a series = "(string \<times> 'a cell) list"

record 'a dataframe =
  columns :: "string list"
  rows :: "'a series list"

text \<open>\<^verbatim>\<open>pd.DataFrame()\<close>\<close>

definition DataFrame_empty :: "'a dataframe" where
  "DataFrame_empty = \<lparr>columns = [], rows = []\<rparr>"

text \<open>\<^verbatim>\<open>df.empty\<close>: true when either axis has length 0.\<close>

definition empty :: "'a dataframe \<Rightarrow> bool" where
  "empty df = (columns df = [] \<or> rows df = [])"

text \<open>\<^verbatim>\<open>len(df)\<close>\<close>

definition len :: "'a dataframe \<Rightarrow> nat" where
  "len df = length (rows df)"

text \<open>\<^verbatim>\<open>df[c]\<close>, read: the cells of column \<open>c\<close>, top to bottom.\<close>

definition getitem :: "'a dataframe \<Rightarrow> string \<Rightarrow> 'a cell option list" where
  "getitem df c = map (\<lambda>r. map_of r c) (rows df)"

text \<open>
  \<^verbatim>\<open>df[c] = values\<close>: the column is replaced in place when it exists and appended
  otherwise. The values are set by position.
\<close>

definition setitem :: "'a dataframe \<Rightarrow> string \<Rightarrow> 'a cell list \<Rightarrow> 'a dataframe" where
  "setitem df c vs =
     \<lparr>columns = (if c \<in> set (columns df) then columns df else columns df @ [c]),
      rows = map (\<lambda>(r, v). AList.update c v r) (zip (rows df) vs)\<rparr>"

text \<open>\<^verbatim>\<open>df.drop(c, axis=1)\<close>\<close>

definition drop_column :: "string \<Rightarrow> 'a dataframe \<Rightarrow> 'a dataframe" where
  "drop_column c df =
     \<lparr>columns = removeAll c (columns df), rows = map (AList.delete c) (rows df)\<rparr>"

text \<open>
  \<^verbatim>\<open>pd.concat([a, b], ignore_index=True)\<close>: the columns of \<open>a\<close>, then those of \<open>b\<close> that
  \<open>a\<close> lacks; every row is re-indexed on them, a missing cell becoming \<open>NA\<close>.
\<close>

definition reindex :: "string list \<Rightarrow> 'a series \<Rightarrow> 'a series" where
  "reindex cols r = map (\<lambda>c. (c, case map_of r c of None \<Rightarrow> NA | Some v \<Rightarrow> v)) cols"

definition concat_frames :: "'a dataframe \<Rightarrow> 'a dataframe \<Rightarrow> 'a dataframe" where
  "concat_frames a b =
     (let cols = columns a @ filter (\<lambda>c. c \<notin> set (columns a)) (columns b)
      in \<lparr>columns = cols, rows = map (reindex cols) (rows a @ rows b)\<rparr>)"

subsection \<open>Files\<close>

record stored_file =
  content :: string
  st_mtime :: datetime

type_synonym fs = "string \<rightharpoonup> stored_file"

subsection \<open>The libraries and the operating system\<close>

text \<open>
  Outcome of \<^verbatim>\<open>df.to_csv(path, index=False)\<close>: the text written, or an exception
  together with what the failed write left at \<open>path\<close> (nothing, or a partial file).
\<close>

datatype to_csv_result = Written string | WriteFailed exn "string option"

record 'a env =
  read_csv :: "string \<Rightarrow> exn + 'a dataframe"
    \<comment> \<open>\<^verbatim>\<open>pd.read_csv\<close> on a file's content\<close>
  to_csv :: "'a dataframe \<Rightarrow> to_csv_result"
  to_datetime :: "'a cell option list \<Rightarrow> exn + datetime option list"
    \<comment> \<open>\<^verbatim>\<open>pd.to_datetime(column, errors='coerce')\<close>; \<open>None\<close> is \<^verbatim>\<open>NaT\<close>\<close>
  sort_values :: "string \<Rightarrow> 'a dataframe \<Rightarrow> exn + 'a dataframe"
    \<comment> \<open>\<^verbatim>\<open>df.sort_values(column, ascending=False)\<close>\<close>
  str_timestamp :: "datetime \<Rightarrow> string"
    \<comment> \<open>\<^verbatim>\<open>str\<close> of a Timestamp\<close>
  str_val :: "'a \<Rightarrow> string"
    \<comment> \<open>\<^verbatim>\<open>str\<close> of another scalar\<close>
  rename_error :: "exn option"
    \<comment> \<open>whether \<^verbatim>\<open>os.rename\<close> raises\<close>
  backup_stamp :: string
    \<comment> \<open>\<^verbatim>\<open>datetime.now().strftime('%Y%m%d_%H%M%S')\<close> at the backup\<close>
  write_time :: datetime
    \<comment> \<open>the modification time a write gives the file\<close>

section \<open>The identity key (\<^verbatim>\<open>create_unique_key\<close>)\<close>

definition key_fields :: "string list" where
  "key_fields = [''symbol'', ''company'', ''name'', ''date'', ''secVal'', ''tdpTransactionType'']"

text \<open>
  \<^verbatim>\<open>str(v)\<close> of a cell. The code calls it on values that passed \<^verbatim>\<open>pd.notna\<close> only; the
  text of a missing value is \<^verbatim>\<open>'nan'\<close> for a float.
\<close>

definition py_str :: "'a env \<Rightarrow> 'a cell \<Rightarrow> string" where
  "py_str e v =
     (case v of Str s \<Rightarrow> s | Timestamp t \<Rightarrow> str_timestamp e t | Val a \<Rightarrow> str_val e a
      | NA \<Rightarrow> ''nan'')"

text \<open>
  The loop over \<open>key_fields\<close>, appending to \<open>key_parts\<close>:
  \<^verbatim>\<open>if field in row.index: value = str(row[field]) if pd.notna(row[field]) else 'NA'\<close>.
\<close>

fun key_parts :: "'a env \<Rightarrow> 'a series \<Rightarrow> string list \<Rightarrow> string list" where
  "key_parts e row [] = []"
| "key_parts e row (field # rest) =
     (case map_of row field of
        None \<Rightarrow> key_parts e row rest
      | Some v \<Rightarrow> (if notna v then py_str e v else ''NA'') # key_parts e row rest)"

text \<open>\<^verbatim>\<open>sep.join(parts)\<close>\<close>

fun join :: "string \<Rightarrow> string list \<Rightarrow> string" where
  "join sep [] = []"
| "join sep [p] = p"
| "join sep (p # q # ps) = p @ sep @ join sep (q # ps)"

definition create_unique_key :: "'a env \<Rightarrow> 'a series \<Rightarrow> string" where
  "create_unique_key e row = join ''|'' (key_parts e row key_fields)"

text \<open>
  The identity key as the specification words it: the six fields in their fixed order,
  each contributing nothing when the record's schema lacks it, the token \<^verbatim>\<open>NA\<close> when it
  is there with an absent value, and its string representation otherwise, joined with
  the separator.
\<close>

definition identity_key :: "'a env \<Rightarrow> 'a series \<Rightarrow> string" where
  "identity_key e record =
     join ''|'' (concat (map (\<lambda>field. case map_of record field of
                                         None \<Rightarrow> []
                                       | Some NA \<Rightarrow> [''NA'']
                                       | Some v \<Rightarrow> [py_str e v]) key_fields))"

section \<open>The merge (\<^verbatim>\<open>update_data_file\<close>)\<close>

text \<open>\<^verbatim>\<open>df.apply(f, axis=1)\<close>\<close>

definition apply_axis1 :: "('a series \<Rightarrow> 'b) \<Rightarrow> 'a dataframe \<Rightarrow> 'b list" where
  "apply_axis1 f df = map f (rows df)"

text \<open>\<^verbatim>\<open>df['unique_key'] = df.apply(self.create_unique_key, axis=1)\<close>\<close>

definition add_unique_key :: "'a env \<Rightarrow> 'a dataframe \<Rightarrow> 'a dataframe" where
  "add_unique_key e df =
     setitem df ''unique_key'' (apply_axis1 (\<lambda>row. Str (create_unique_key e row)) df)"

text \<open>\<^verbatim>\<open>df[~df[c].isin(values)]\<close>: the rows whose cell in column \<open>c\<close> is not among the values.\<close>

definition select_not_isin :: "'a dataframe \<Rightarrow> string \<Rightarrow> 'a cell option list \<Rightarrow> 'a dataframe" where
  "select_not_isin df c vals =
     \<lparr>columns = columns df, rows = filter (\<lambda>r. map_of r c \<notin> set vals) (rows df)\<rparr>"

text \<open>
  \<^verbatim>\<open>if 'date' in existing_df.columns:
      existing_df['date'] = pd.to_datetime(existing_df['date'], errors='coerce')\<close>.
  Setting a column to values of another length raises.
\<close>

definition datetime_cell :: "datetime option \<Rightarrow> 'a cell" where
  "datetime_cell d = (case d of None \<Rightarrow> NA | Some t \<Rightarrow> Timestamp t)"

definition convert_date :: "'a env \<Rightarrow> 'a dataframe \<Rightarrow> exn + 'a dataframe" where
  "convert_date e df =
     (if ''date'' \<in> set (columns df)
      then (case to_datetime e (getitem df ''date'') of
              Inl x \<Rightarrow> Inl x
            | Inr ds \<Rightarrow>
                if length ds \<noteq> len df
                then Inl (Exception ''Length of values does not match length of index'')
                else Inr (setitem df ''date'' (map datetime_cell ds)))
      else Inr df)"

text \<open>
  What the \<^verbatim>\<open>try\<close> block of \<^verbatim>\<open>update_data_file\<close> (lines 242 to 270) ends with: the early
  \<^verbatim>\<open>return 0\<close>, or \<open>combined_df\<close> and \<open>new_records\<close>.
\<close>

datatype 'a merged = NoNewRecords | Merged "'a dataframe" "'a dataframe"

text \<open>
  Reading the existing file (lines 243 to 248): \<^verbatim>\<open>pd.read_csv\<close>, then the date column
  converted.
\<close>

definition load_existing :: "'a env \<Rightarrow> string \<Rightarrow> exn + 'a dataframe" where
  "load_existing e text =
     (case read_csv e text of
        Inl x \<Rightarrow> Inl x
      | Inr existing_df \<Rightarrow> convert_date e existing_df)"

text \<open>
  The \<^verbatim>\<open>try\<close> block. The first component of the result is the caller's frame \<open>new_df\<close> as
  the block leaves it: line 252 assigns a column to it in place. The second is the
  exception raised, or the block's outcome.
\<close>

definition merge_existing ::
  "'a env \<Rightarrow> string \<Rightarrow> 'a dataframe \<Rightarrow> 'a dataframe \<times> (exn + 'a merged)" where
  "merge_existing e text new_df =
     (case load_existing e text of
        Inl x \<Rightarrow> (new_df, Inl x)
      | Inr existing_df \<Rightarrow>
          (let existing_df = add_unique_key e existing_df;
               new_df = add_unique_key e new_df;
               new_records =
                 select_not_isin new_df ''unique_key'' (getitem existing_df ''unique_key'')
           in if empty new_records then (new_df, Inr NoNewRecords)
              else
                (let new_records = drop_column ''unique_key'' new_records;
                     existing_df = drop_column ''unique_key'' existing_df;
                     combined_df = concat_frames existing_df new_records
                 in if ''date'' \<in> set (columns combined_df)
                    then (case sort_values e ''date'' combined_df of
                            Inl x \<Rightarrow> (new_df, Inl x)
                          | Inr combined_df \<Rightarrow> (new_df, Inr (Merged combined_df new_records)))
                    else (new_df, Inr (Merged combined_df new_records)))))"

text \<open>
  The library calls that change the file system, in the order they completed:
  \<^verbatim>\<open>os.rename(src, dst)\<close> and \<^verbatim>\<open>df.to_csv(path, index=False)\<close>.
\<close>

datatype 'a call = Rename string string | ToCsv "'a dataframe" string

text \<open>
  What a call of \<^verbatim>\<open>update_data_file\<close> leaves: the number it returns, the file system, the
  calls it made, and the caller's frame.
\<close>

record 'a update_result =
  new_count :: nat
  files :: fs
  calls :: "'a call list"
  caller_df :: "'a dataframe option"

text \<open>
  Lines 290 to 298: \<^verbatim>\<open>combined_df.to_csv(self.data_file, index=False)\<close> and
  \<^verbatim>\<open>return len(new_records)\<close>, or \<^verbatim>\<open>return 0\<close> from the handler.
\<close>

definition write_csv ::
  "'a env \<Rightarrow> string \<Rightarrow> fs \<Rightarrow> 'a call list \<Rightarrow> 'a dataframe \<Rightarrow> 'a dataframe \<Rightarrow> 'a dataframe
     \<Rightarrow> 'a update_result" where
  "write_csv e data_file fs made combined_df new_records caller =
     (case to_csv e combined_df of
        Written s \<Rightarrow>
          \<lparr>new_count = len new_records,
           files = fs(data_file \<mapsto> \<lparr>content = s, st_mtime = write_time e\<rparr>),
           calls = made @ [ToCsv combined_df data_file],
           caller_df = Some caller\<rparr>
      | WriteFailed x left \<Rightarrow>
          \<lparr>new_count = 0,
           files = (case left of
                      None \<Rightarrow> fs
                    | Some s \<Rightarrow> fs(data_file \<mapsto> \<lparr>content = s, st_mtime = write_time e\<rparr>)),
           calls = made,
           caller_df = Some caller\<rparr>)"

text \<open>\<^verbatim>\<open>os.path.exists(path)\<close>\<close>

definition os_path_exists :: "fs \<Rightarrow> string \<Rightarrow> bool" where
  "os_path_exists fs path = (fs path \<noteq> None)"

text \<open>
  \<^verbatim>\<open>os.rename(src, dst)\<close>: the file moves to the new name, nothing of it staying under the
  old one; a file already at \<open>dst\<close> is replaced.
\<close>

definition os_rename :: "'a env \<Rightarrow> fs \<Rightarrow> string \<Rightarrow> string \<Rightarrow> exn + fs" where
  "os_rename e fs src dst =
     (case rename_error e of
        Some x \<Rightarrow> Inl x
      | None \<Rightarrow>
          (case fs src of
             None \<Rightarrow> Inl (Exception ''FileNotFoundError'')
           | Some f \<Rightarrow> Inr (fs(src := None, dst \<mapsto> f))))"

text \<open>
  Lines 282 to 298, the save: when the file exists it is renamed to the backup name
  first; an exception anywhere returns 0.
\<close>

definition save ::
  "'a env \<Rightarrow> string \<Rightarrow> fs \<Rightarrow> 'a dataframe \<Rightarrow> 'a dataframe \<Rightarrow> 'a dataframe
     \<Rightarrow> 'a update_result" where
  "save e data_file fs combined_df new_records caller =
     (if os_path_exists fs data_file
      then
        (let backup_file = data_file @ ''.backup_'' @ backup_stamp e
         in case os_rename e fs data_file backup_file of
              Inl x \<Rightarrow> \<lparr>new_count = 0, files = fs, calls = [], caller_df = Some caller\<rparr>
            | Inr fs \<Rightarrow>
                write_csv e data_file fs [Rename data_file backup_file]
                  combined_df new_records caller)
      else write_csv e data_file fs [] combined_df new_records caller)"

definition update_data_file ::
  "'a env \<Rightarrow> string \<Rightarrow> fs \<Rightarrow> 'a dataframe option \<Rightarrow> 'a update_result" where
  "update_data_file e data_file fs new_df_arg =
     (case new_df_arg of
        None \<Rightarrow> \<lparr>new_count = 0, files = fs, calls = [], caller_df = None\<rparr>
      | Some new_df \<Rightarrow>
          if empty new_df
          then \<lparr>new_count = 0, files = fs, calls = [], caller_df = Some new_df\<rparr>
          else
            (case fs data_file of
               Some f \<Rightarrow>
                 (case merge_existing e (content f) new_df of
                    (new_df, Inr NoNewRecords) \<Rightarrow>
                      \<lparr>new_count = 0, files = fs, calls = [], caller_df = Some new_df\<rparr>
                  | (new_df, Inr (Merged combined_df new_records)) \<Rightarrow>
                      save e data_file fs combined_df new_records new_df
                  | (new_df, Inl x) \<Rightarrow> save e data_file fs new_df new_df new_df)
             | None \<Rightarrow> save e data_file fs new_df new_df new_df))"

section \<open>The checkpoint (\<^verbatim>\<open>get_last_update_time\<close>)\<close>

text \<open>\<^verbatim>\<open>df['date'].max()\<close> on a converted column: the latest timestamp, \<^verbatim>\<open>NaT\<close> when there is none.\<close>

fun timestamps :: "'a cell option list \<Rightarrow> datetime list" where
  "timestamps [] = []"
| "timestamps (Some (Timestamp t) # cs) = t # timestamps cs"
| "timestamps (c # cs) = timestamps cs"

definition series_max :: "'a cell option list \<Rightarrow> datetime option" where
  "series_max cs = (case timestamps cs of [] \<Rightarrow> None | t # ts \<Rightarrow> Some (fold max ts t))"

text \<open>
  The value \<^verbatim>\<open>get_last_update_time\<close> returns, tagged with the \<^verbatim>\<open>return\<close> statement it comes
  from: the seven-day default (lines 86, 91 and 106), the latest date of the file
  (line 98), or the file's modification time (line 102).
\<close>

datatype checkpoint = DefaultLookback datetime | LastDate datetime | FileMtime datetime

fun checkpoint_value :: "checkpoint \<Rightarrow> datetime" where
  "checkpoint_value (DefaultLookback t) = t"
| "checkpoint_value (LastDate t) = t"
| "checkpoint_value (FileMtime t) = t"

text \<open>The \<^verbatim>\<open>try\<close> block, lines 89 to 102.\<close>

definition last_update_try :: "'a env \<Rightarrow> stored_file \<Rightarrow> datetime \<Rightarrow> exn + checkpoint" where
  "last_update_try e f now =
     (case read_csv e (content f) of
        Inl x \<Rightarrow> Inl x
      | Inr df \<Rightarrow>
          if empty df then Inr (DefaultLookback (now - timedelta_days 7))
          else if ''date'' \<in> set (columns df)
          then (case convert_date e df of
                  Inl x \<Rightarrow> Inl x
                | Inr df \<Rightarrow>
                    (case series_max (getitem df ''date'') of
                       Some last_date \<Rightarrow> Inr (LastDate last_date)
                     | None \<Rightarrow> Inr (FileMtime (st_mtime f))))
          else Inr (FileMtime (st_mtime f)))"

definition last_update_checkpoint :: "'a env \<Rightarrow> string \<Rightarrow> fs \<Rightarrow> datetime \<Rightarrow> checkpoint" where
  "last_update_checkpoint e data_file fs now =
     (case fs data_file of
        None \<Rightarrow> DefaultLookback (now - timedelta_days 7)
      | Some f \<Rightarrow>
          (case last_update_try e f now of
             Inr c \<Rightarrow> c
           | Inl x \<Rightarrow> DefaultLookback (now - timedelta_days 7)))"

definition get_last_update_time :: "'a env \<Rightarrow> string \<Rightarrow> fs \<Rightarrow> datetime \<Rightarrow> datetime" where
  "get_last_update_time e data_file fs now =
     checkpoint_value (last_update_checkpoint e data_file fs now)"

section \<open>The fetch (\<^verbatim>\<open>fetch_insider_data\<close>)\<close>

subsection \<open>Responses and JSON\<close>

text \<open>
  A response of \<^verbatim>\<open>requests\<close>: \<open>body_text\<close> is \<^verbatim>\<open>response.text\<close>, \<open>body_bytes\<close> is
  \<^verbatim>\<open>response.content\<close>, and the headers are looked up under the names the code writes
  (the dictionary of \<^verbatim>\<open>requests\<close> ignores their case).
\<close>

record response =
  status_code :: int
  headers :: "string \<rightharpoonup> string"
  body_text :: string
  body_bytes :: string

text \<open>\<^verbatim>\<open>response.headers.get(name, default)\<close>\<close>

definition headers_get :: "response \<Rightarrow> string \<Rightarrow> string \<Rightarrow> string" where
  "headers_get r name dflt = (case headers r name of None \<Rightarrow> dflt | Some v \<Rightarrow> v)"

datatype pyfloat = Finite int int | Infinity bool | NaN

datatype json =
  JNull | JBool bool | JInt int | JFloat pyfloat | JStr string
  | JArr "json list" | JObj "(string \<times> json) list"

text \<open>\<^verbatim>\<open>not v\<close>, Python's truth value negated.\<close>

fun falsy :: "json \<Rightarrow> bool" where
  "falsy JNull = True"
| "falsy (JBool b) = (\<not> b)"
| "falsy (JInt i) = (i = 0)"
| "falsy (JFloat (Finite m ex)) = (m = 0)"
| "falsy (JFloat x) = False"
| "falsy (JStr s) = (s = [])"
| "falsy (JArr xs) = (xs = [])"
| "falsy (JObj kvs) = (kvs = [])"

text \<open>\<^verbatim>\<open>sub in s\<close> on strings.\<close>

fun starts_with :: "string \<Rightarrow> string \<Rightarrow> bool" where
  "starts_with s [] = True"
| "starts_with [] (c # sub) = False"
| "starts_with (d # s) (c # sub) = (d = c \<and> starts_with s sub)"

fun contains :: "string \<Rightarrow> string \<Rightarrow> bool" where
  "contains [] sub = (sub = [])"
| "contains (d # s) sub = (starts_with (d # s) sub \<or> contains s sub)"

text \<open>The network and the parsing libraries.\<close>

record 'a net =
  session_get :: "(string \<times> string) list \<Rightarrow> exn + response"
    \<comment> \<open>\<^verbatim>\<open>self.session.get(api_url, params=params, timeout=30)\<close>\<close>
  lower :: "string \<Rightarrow> string"
  brotli_decode :: "string \<Rightarrow> exn + string"
    \<comment> \<open>\<^verbatim>\<open>import brotli\<close>, \<^verbatim>\<open>brotli.decompress\<close>, \<^verbatim>\<open>decode('utf-8')\<close>\<close>
  json_loads :: "string \<Rightarrow> exn + json"
  DataFrame :: "json \<Rightarrow> exn + 'a dataframe"
    \<comment> \<open>\<^verbatim>\<open>pd.DataFrame(rows)\<close>\<close>
  strftime_dmy :: "datetime \<Rightarrow> string"
    \<comment> \<open>\<^verbatim>\<open>strftime('%d-%m-%Y')\<close>\<close>

text \<open>
  The three readings of \<^verbatim>\<open>datetime.now()\<close> a fetch of \<^verbatim>\<open>cron_script.py\<close> can make: line
  112, inside \<^verbatim>\<open>get_last_update_time\<close>, and line 118.
\<close>

record clock =
  now_to_date :: datetime
  now_last_update :: datetime
  now_max_back :: datetime

subsection \<open>The date window, lines 111 to 120\<close>

definition date_window ::
  "'a env \<Rightarrow> string \<Rightarrow> fs \<Rightarrow> clock \<Rightarrow> datetime option \<Rightarrow> datetime option
     \<Rightarrow> datetime \<times> datetime" where
  "date_window e data_file fs clk from_date to_date =
     (let to_date = (case to_date of None \<Rightarrow> now_to_date clk | Some t \<Rightarrow> t);
          from_date = (case from_date of
                         None \<Rightarrow> get_last_update_time e data_file fs (now_last_update clk)
                       | Some t \<Rightarrow> t);
          max_back_date = now_max_back clk - timedelta_days 30;
          from_date = (if from_date < max_back_date then max_back_date else from_date)
      in (from_date, to_date))"

subsection \<open>The response\<close>

text \<open>
  Lines 145 to 161 of \<^verbatim>\<open>cron_script.py\<close> (107 to 124 of \<^verbatim>\<open>main.py\<close>): the body, through
  Brotli when the encoding names it. Both handlers of the inner \<^verbatim>\<open>try\<close> return
  \<^verbatim>\<open>None\<close>.
\<close>

definition response_content :: "'a net \<Rightarrow> response \<Rightarrow> exn + string" where
  "response_content n r =
     (let content_encoding = lower n (headers_get r ''Content-Encoding'' [])
      in if contains content_encoding ''br'' then brotli_decode n (body_bytes r)
         else Inr (body_text r))"

definition api_params :: "string \<Rightarrow> string \<Rightarrow> (string \<times> string) list" where
  "api_params from_date_str to_date_str =
     [(''index'', ''equities''), (''from_date'', from_date_str), (''to_date'', to_date_str)]"

text \<open>
  \<^verbatim>\<open>cron_script.py\<close>, lines 137 to 193, once the dates are formatted. \<open>None\<close> is the
  \<^verbatim>\<open>None\<close> the code returns at every failure, also from the outer handler.
\<close>

definition request_data ::
  "'a net \<Rightarrow> string \<Rightarrow> string \<Rightarrow> ('a dataframe \<times> string \<times> string) option" where
  "request_data n from_date_str to_date_str =
     (case session_get n (api_params from_date_str to_date_str) of
        Inl x \<Rightarrow> None
      | Inr r \<Rightarrow>
          if status_code r \<noteq> 200 then None
          else
            (case response_content n r of
               Inl x \<Rightarrow> None
             | Inr text \<Rightarrow>
                 if \<not> contains (headers_get r ''content-type'' []) ''application/json''
                 then None
                 else
                   (case json_loads n text of
                      Inl x \<Rightarrow> None
                    | Inr (JObj kvs) \<Rightarrow>
                        (case map_of kvs ''data'' of
                           None \<Rightarrow> None
                         | Some d \<Rightarrow>
                             if falsy d then Some (DataFrame_empty, from_date_str, to_date_str)
                             else
                               (case DataFrame n d of
                                  Inl x \<Rightarrow> None
                                | Inr df \<Rightarrow> Some (df, from_date_str, to_date_str)))
                    | Inr other \<Rightarrow> None)))"

definition fetch_insider_data ::
  "'a env \<Rightarrow> 'a net \<Rightarrow> string \<Rightarrow> fs \<Rightarrow> clock \<Rightarrow> datetime option \<Rightarrow> datetime option
     \<Rightarrow> ('a dataframe \<times> string \<times> string) option" where
  "fetch_insider_data e n data_file fs clk from_date to_date =
     (case date_window e data_file fs clk from_date to_date of
        (from_date, to_date) \<Rightarrow>
          (let to_date_str = strftime_dmy n to_date;
               from_date_str = strftime_dmy n from_date
           in request_data n from_date_str to_date_str))"

text \<open>
  \<^verbatim>\<open>main.py\<close>, \<^verbatim>\<open>fetch_insider_data(days_back)\<close>, lines 70 to 172: the one-shot scraper's
  fetch. \<open>today\<close> is \<^verbatim>\<open>datetime.today()\<close>. The debug file it writes for a response that
  is not JSON is left out.
\<close>

definition fetch_insider_data_main ::
  "'a net \<Rightarrow> datetime \<Rightarrow> int \<Rightarrow> ('a dataframe \<times> string \<times> string) option" where
  "fetch_insider_data_main n today days_back =
     (let todate = today;
          fromdate = todate - timedelta_days days_back;
          to_date_str = strftime_dmy n todate;
          from_date_str = strftime_dmy n fromdate
      in case session_get n (api_params from_date_str to_date_str) of
           Inl x \<Rightarrow> None
         | Inr r \<Rightarrow>
             (let content_type = headers_get r ''content-type'' ''Unknown''
              in if status_code r \<noteq> 200 then None
                 else
                   (case response_content n r of
                      Inl x \<Rightarrow> None
                    | Inr text \<Rightarrow>
                        if \<not> contains content_type ''application/json'' then None
                        else
                          (case json_loads n text of
                             Inl x \<Rightarrow> None
                           | Inr (JObj kvs) \<Rightarrow>
                               (case map_of kvs ''data'' of
                                  None \<Rightarrow> None
                                | Some d \<Rightarrow>
                                    if falsy d then None
                                    else
                                      (case DataFrame n d of
                                         Inl x \<Rightarrow> None
                                       | Inr df \<Rightarrow> Some (df, from_date_str, to_date_str)))
                           | Inr other \<Rightarrow> None))))"

section \<open>Sortedness of a stored dataset\<close>

text \<open>
  A frame is sorted by transaction date descending when, down its \<open>date\<close> column, no
  timestamp is followed by a later one and no missing date is followed by a timestamp
  (pandas puts missing values last).
\<close>

fun date_of :: "'a cell option \<Rightarrow> datetime option" where
  "date_of (Some (Timestamp t)) = Some t"
| "date_of c = None"

fun not_before :: "datetime option \<Rightarrow> datetime option \<Rightarrow> bool" where
  "not_before (Some s) (Some t) = (t \<le> s)"
| "not_before None (Some t) = False"
| "not_before a None = True"

definition date_descending :: "'a dataframe \<Rightarrow> bool" where
  "date_descending df = sorted_wrt not_before (map date_of (getitem df ''date''))"

section \<open>A concrete environment\<close>

text \<open>
  A small world on which the theorems below are instantiated. Scalars other than
  strings and timestamps are carried as their printed form. One file content does not
  parse, \<open>stored_text\<close> parses to the one-record dataset \<open>stored_df\<close>, one is a header with
  no record, and the others parse to a record with no date.
\<close>

definition jan1 :: datetime where
  "jan1 = 1704067200000000000"

definition jan2 :: datetime where
  "jan2 = 1704153600000000000"

definition stored_text :: string where
  "stored_text =
     ''symbol,date,secVal,tdpTransactionType,buyQuantity\<newline>ABC,2024-01-01,100,Buy,10\<newline>''"

definition stored :: stored_file where
  "stored = \<lparr>content = stored_text, st_mtime = jan1\<rparr>"

definition corrupt :: stored_file where
  "corrupt = \<lparr>content = ''%PDF-1.7'', st_mtime = jan1\<rparr>"

definition stored_df :: "string dataframe" where
  "stored_df =
     \<lparr>columns = [''symbol'', ''date'', ''secVal'', ''tdpTransactionType'', ''buyQuantity''],
      rows = [[(''symbol'', Str ''ABC''), (''date'', Str ''2024-01-01''),
               (''secVal'', Val ''100''), (''tdpTransactionType'', Str ''Buy''),
               (''buyQuantity'', Val ''10'')]]\<rparr>"

text \<open>The same event fetched again, with another quantity.\<close>

definition refetched_df :: "string dataframe" where
  "refetched_df =
     \<lparr>columns = [''symbol'', ''date'', ''secVal'', ''tdpTransactionType'', ''buyQuantity''],
      rows = [[(''symbol'', Str ''ABC''), (''date'', Timestamp jan1),
               (''secVal'', Val ''100''), (''tdpTransactionType'', Str ''Buy''),
               (''buyQuantity'', Val ''999'')]]\<rparr>"

text \<open>Two new events, the earlier one first.\<close>

definition incoming_df :: "string dataframe" where
  "incoming_df =
     \<lparr>columns = [''symbol'', ''date''],
      rows = [[(''symbol'', Str ''XYZ''), (''date'', Timestamp jan1)],
              [(''symbol'', Str ''XYZ''), (''date'', Timestamp jan2)]]\<rparr>"

text \<open>What merging \<open>incoming_df\<close> into \<open>stored_df\<close> gives, latest date first.\<close>

definition merged_df :: "string dataframe" where
  "merged_df =
     \<lparr>columns = [''symbol'', ''date'', ''secVal'', ''tdpTransactionType'', ''buyQuantity''],
      rows = [[(''symbol'', Str ''XYZ''), (''date'', Timestamp jan2), (''secVal'', NA),
               (''tdpTransactionType'', NA), (''buyQuantity'', NA)],
              [(''symbol'', Str ''XYZ''), (''date'', Timestamp jan1), (''secVal'', NA),
               (''tdpTransactionType'', NA), (''buyQuantity'', NA)],
              [(''symbol'', Str ''ABC''), (''date'', Timestamp jan1), (''secVal'', Val ''100''),
               (''tdpTransactionType'', Str ''Buy''), (''buyQuantity'', Val ''10'')]]\<rparr>"

definition demo_str_timestamp :: "datetime \<Rightarrow> string" where
  "demo_str_timestamp t =
     (if t = jan1 then ''2024-01-01 00:00:00''
      else if t = jan2 then ''2024-01-02 00:00:00'' else ''1970-01-01 00:00:00'')"

definition demo_to_datetime :: "string cell option list \<Rightarrow> exn + datetime option list" where
  "demo_to_datetime cs =
     Inr (map (\<lambda>c. case c of
                      Some (Timestamp t) \<Rightarrow> Some t
                    | Some (Str s) \<Rightarrow>
                        (if s = ''2024-01-01'' then Some jan1
                         else if s = ''2024-01-02'' then Some jan2 else None)
                    | other \<Rightarrow> None) cs)"

definition demo_csv_cell :: "string cell \<Rightarrow> string" where
  "demo_csv_cell v =
     (case v of NA \<Rightarrow> [] | Str s \<Rightarrow> s | Val s \<Rightarrow> s | Timestamp t \<Rightarrow> demo_str_timestamp t)"

definition demo_to_csv :: "string dataframe \<Rightarrow> to_csv_result" where
  "demo_to_csv df =
     Written (concat (map (\<lambda>line. line @ ''\<newline>'')
                (join '','' (columns df)
                 # map (\<lambda>r. join '','' (map (\<lambda>(c, v). demo_csv_cell v) r)) (rows df))))"

definition demo_sort_values :: "string \<Rightarrow> string dataframe \<Rightarrow> exn + string dataframe" where
  "demo_sort_values c df =
     Inr \<lparr>columns = columns df, rows = rev (sort_key (\<lambda>r. date_of (map_of r c)) (rows df))\<rparr>"

definition demo_env :: "string env" where
  "demo_env =
     \<lparr>read_csv = (\<lambda>text. if text = ''%PDF-1.7'' then Inl (Exception ''ParserError'')
                          else if text = stored_text then Inr stored_df
                          else if text = ''symbol,date\<newline>''
                          then Inr \<lparr>columns = [''symbol'', ''date''], rows = []\<rparr>
                          else Inr \<lparr>columns = [''symbol''], rows = [[(''symbol'', Str ''ABC'')]]\<rparr>),
      to_csv = demo_to_csv,
      to_datetime = demo_to_datetime,
      sort_values = demo_sort_values,
      str_timestamp = demo_str_timestamp,
      str_val = (\<lambda>s. s),
      rename_error = None,
      backup_stamp = ''20240102_093000'',
      write_time = jan2\<rparr>"

definition stored_fs :: fs where
  "stored_fs = [''data.csv'' \<mapsto> stored]"

definition corrupt_fs :: fs where
  "corrupt_fs = [''data.csv'' \<mapsto> corrupt]"

definition empty_data_response :: response where
  \<open>empty_data_response =
     \<lparr>status_code = 200,
      headers = [''content-type'' \<mapsto> ''application/json; charset=utf-8''],
      body_text = ''{"data": []}'',
      body_bytes = ''{"data": []}''\<rparr>\<close>

definition demo_net :: "string net" where
  \<open>demo_net =
     \<lparr>session_get = (\<lambda>params. Inr empty_data_response),
      lower = (\<lambda>s. s),
      brotli_decode = (\<lambda>b. Inl ImportError),
      json_loads = (\<lambda>text. if text = ''{"data": []}'' then Inr (JObj [(''data'', JArr [])])
                             else Inl JSONDecodeError),
      DataFrame = (\<lambda>d. Inl (Exception ''ValueError'')),
      strftime_dmy = (\<lambda>t. if t = jan2 then ''02-01-2024''
                            else if t = jan1 then ''01-01-2024''
                            else if t = jan2 - timedelta_days 90 then ''04-10-2023''
                            else ''03-12-2023'')\<rparr>\<close>

definition demo_clock :: clock where
  "demo_clock = \<lparr>now_to_date = jan2, now_last_update = jan2, now_max_back = jan2\<rparr>"

section \<open>Properties of the identity key\<close>

lemma key_parts_concat:
  "key_parts e row flds =
     concat (map (\<lambda>field. case map_of row field of
                             None \<Rightarrow> []
                           | Some NA \<Rightarrow> [''NA'']
                           | Some v \<Rightarrow> [py_str e v]) flds)"
proof (induction flds)
  case Nil
  show ?case by simp
next
  case (Cons f flds)
  show ?case
  proof (cases "map_of row f")
    case None
    with Cons show ?thesis by simp
  next
    case (Some v)
    with Cons show ?thesis by (cases v) (simp_all add: notna_def)
  qed
qed

lemma key_parts_cong:
  "\<forall>f \<in> set flds. map_of row' f = map_of row f \<Longrightarrow>
   key_parts e row' flds = key_parts e row flds"
  by (induction flds) (simp_all split: option.splits)

text \<open>
  C4. \<^verbatim>\<open>create_unique_key\<close> computes the identity key of the specification: the string
  representations of symbol, company, name, date, secVal and tdpTransactionType in
  that order, joined with \<^verbatim>\<open>|\<close>, with \<^verbatim>\<open>NA\<close> for a field that is there with an absent
  value and nothing at all for a field the record's schema lacks. It reads the record
  at these six fields only: two records that agree on them get the same key, whatever
  else they hold.
\<close>

theorem create_unique_key_identity_key:
  "create_unique_key e row = identity_key e row \<and>
   ((\<forall>f \<in> set key_fields. map_of row' f = map_of row f) \<longrightarrow>
      create_unique_key e row' = create_unique_key e row)"
proof (intro conjI impI)
  show "create_unique_key e row = identity_key e row"
    by (simp add: create_unique_key_def identity_key_def key_parts_concat)
next
  assume "\<forall>f \<in> set key_fields. map_of row' f = map_of row f"
  then have "key_parts e row' key_fields = key_parts e row key_fields"
    by (rule key_parts_cong)
  then show "create_unique_key e row' = create_unique_key e row"
    by (simp add: create_unique_key_def)
qed

theorem create_unique_key_identity_key_witness:
  "create_unique_key demo_env (hd (rows refetched_df)) = ''ABC|2024-01-01 00:00:00|100|Buy'' \<and>
   create_unique_key demo_env
     [(''symbol'', Str ''ABC''), (''date'', Timestamp jan1), (''secVal'', Val ''100''),
      (''tdpTransactionType'', Str ''Buy''), (''buyQuantity'', Val ''10''), (''name'', NA)]
     = ''ABC|NA|2024-01-01 00:00:00|100|Buy'' \<and>
   create_unique_key demo_env
     [(''buyQuantity'', Val ''7''), (''symbol'', Str ''ABC''), (''date'', Timestamp jan1),
      (''secVal'', Val ''100''), (''tdpTransactionType'', Str ''Buy'')]
     = create_unique_key demo_env (hd (rows refetched_df))"
  using create_unique_key_identity_key
    [of demo_env "hd (rows refetched_df)"
      "[(''buyQuantity'', Val ''7''), (''symbol'', Str ''ABC''), (''date'', Timestamp jan1),
        (''secVal'', Val ''100''), (''tdpTransactionType'', Str ''Buy'')]"]
    create_unique_key_identity_key
    [of demo_env
      "[(''symbol'', Str ''ABC''), (''date'', Timestamp jan1), (''secVal'', Val ''100''),
        (''tdpTransactionType'', Str ''Buy''), (''buyQuantity'', Val ''10''), (''name'', NA)]"]
  by (simp add: identity_key_def key_fields_def refetched_df_def py_str_def demo_env_def
        demo_str_timestamp_def jan1_def jan2_def)

section \<open>Properties of the merge\<close>

lemma rows_add_unique_key:
  "rows (add_unique_key e df) =
     map (\<lambda>r. AList.update ''unique_key'' (Str (create_unique_key e r)) r) (rows df)"
  by (simp add: add_unique_key_def setitem_def apply_axis1_def zip_map2 zip_same_conv_map)

lemma columns_add_unique_key:
  "''unique_key'' \<in> set (columns (add_unique_key e df))"
  by (simp add: add_unique_key_def setitem_def)

lemma getitem_add_unique_key:
  "getitem (add_unique_key e df) ''unique_key'' =
     map (\<lambda>r. Some (Str (create_unique_key e r))) (rows df)"
  by (simp add: getitem_def rows_add_unique_key update_conv')

lemma no_new_records:
  assumes "\<forall>r \<in> set (rows new_df). create_unique_key e r \<in> create_unique_key e ` set (rows existing_df)"
  shows "rows (select_not_isin (add_unique_key e new_df) ''unique_key''
                 (getitem (add_unique_key e existing_df) ''unique_key'')) = []"
  using assms
  by (auto simp: select_not_isin_def getitem_add_unique_key rows_add_unique_key update_conv'
        filter_empty_conv)

lemma merge_existing_no_new:
  assumes "load_existing e text = Inr existing_df"
    and "\<forall>r \<in> set (rows new_df). create_unique_key e r \<in> create_unique_key e ` set (rows existing_df)"
  shows "merge_existing e text new_df = (add_unique_key e new_df, Inr NoNewRecords)"
  using assms(1) no_new_records [OF assms(2)]
  by (simp add: merge_existing_def empty_def Let_def)

lemma fst_merge_existing:
  "load_existing e text = Inr existing_df \<Longrightarrow>
   fst (merge_existing e text new_df) = add_unique_key e new_df"
  by (simp add: merge_existing_def Let_def split: sum.splits)

lemma merge_existing_unreadable:
  "load_existing e text = Inl x \<Longrightarrow> merge_existing e text new_df = (new_df, Inl x)"
  by (simp add: merge_existing_def)

text \<open>
  C8. With no incoming frame, or an empty one, \<^verbatim>\<open>update_data_file\<close> returns 0 at once:
  whatever the file system holds, it is left as it was, and neither the backup rename
  nor a write is made.
\<close>

theorem update_data_file_empty_noop:
  "update_data_file e data_file fs None =
     \<lparr>new_count = 0, files = fs, calls = [], caller_df = None\<rparr> \<and>
   (empty new_df \<longrightarrow>
      update_data_file e data_file fs (Some new_df) =
        \<lparr>new_count = 0, files = fs, calls = [], caller_df = Some new_df\<rparr>)"
  by (simp add: update_data_file_def)

theorem update_data_file_empty_noop_witness:
  "empty (DataFrame_empty :: string dataframe) \<and>
   update_data_file demo_env ''data.csv'' stored_fs None =
     \<lparr>new_count = 0, files = stored_fs, calls = [], caller_df = None\<rparr> \<and>
   update_data_file demo_env ''data.csv'' stored_fs (Some DataFrame_empty) =
     \<lparr>new_count = 0, files = stored_fs, calls = [], caller_df = Some DataFrame_empty\<rparr> \<and>
   update_data_file demo_env ''data.csv'' Map.empty
       (Some \<lparr>columns = [''symbol'', ''date''], rows = []\<rparr>) =
     \<lparr>new_count = 0, files = Map.empty, calls = [],
      caller_df = Some \<lparr>columns = [''symbol'', ''date''], rows = []\<rparr>\<rparr>"
  using update_data_file_empty_noop [of demo_env "''data.csv''" stored_fs DataFrame_empty]
    update_data_file_empty_noop [of demo_env "''data.csv''" Map.empty
      "\<lparr>columns = [''symbol'', ''date''], rows = []\<rparr>"]
  by (simp add: empty_def DataFrame_empty_def)

text \<open>
  C1. Let the Dataset file exist and load (it parses and its date column converts) as
  \<open>existing_df\<close>, and let every incoming record have an identity key that some record of
  \<open>existing_df\<close> has. Then \<^verbatim>\<open>update_data_file\<close> finds no new record and returns 0, makes no
  rename and no write, and leaves the file system, so the Dataset on disk, exactly as
  it was.
\<close>

theorem merge_idempotent:
  assumes "fs data_file = Some f"
    and "load_existing e (content f) = Inr existing_df"
    and "\<forall>r \<in> set (rows new_df).
           create_unique_key e r \<in> create_unique_key e ` set (rows existing_df)"
  shows "new_count (update_data_file e data_file fs (Some new_df)) = 0 \<and>
         files (update_data_file e data_file fs (Some new_df)) = fs \<and>
         calls (update_data_file e data_file fs (Some new_df)) = [] \<and>
         merge_existing e (content f) new_df = (add_unique_key e new_df, Inr NoNewRecords)"
  using assms(1) merge_existing_no_new [OF assms(2) assms(3)]
  by (simp add: update_data_file_def)

theorem merge_idempotent_witness:
  "new_count (update_data_file demo_env ''data.csv'' stored_fs (Some refetched_df)) = 0 \<and>
   files (update_data_file demo_env ''data.csv'' stored_fs (Some refetched_df)) = stored_fs \<and>
   calls (update_data_file demo_env ''data.csv'' stored_fs (Some refetched_df)) = []"
proof -
  have 1: "stored_fs ''data.csv'' = Some stored"
    by (simp add: stored_fs_def)
  have 2: "load_existing demo_env (content stored) =
             Inr (setitem stored_df ''date'' [Timestamp jan1])"
    by (simp add: load_existing_def demo_env_def convert_date_def stored_df_def getitem_def
          demo_to_datetime_def len_def datetime_cell_def stored_def stored_text_def)
  have 3: "\<forall>r \<in> set (rows refetched_df).
             create_unique_key demo_env r
               \<in> create_unique_key demo_env ` set (rows (setitem stored_df ''date'' [Timestamp jan1]))"
    by (simp add: refetched_df_def stored_df_def setitem_def create_unique_key_def
          key_fields_def notna_def py_str_def)
  from merge_idempotent [where fs = stored_fs and data_file = "''data.csv''", OF 1 2 3]
  show ?thesis by simp
qed

lemma caller_df_write_csv:
  "caller_df (write_csv e data_file fs made combined_df new_records caller) = Some caller"
  by (simp add: write_csv_def split: to_csv_result.splits)

lemma caller_df_save:
  "caller_df (save e data_file fs combined_df new_records caller) = Some caller"
  by (simp add: save_def Let_def caller_df_write_csv split: sum.splits)

lemma os_rename_backup:
  "fs data_file = Some f \<Longrightarrow> rename_error e = None \<Longrightarrow>
   os_rename e fs data_file backup_file = Inr (fs(data_file := None, backup_file \<mapsto> f))"
  by (simp add: os_rename_def)

lemma save_existing_written:
  assumes "fs data_file = Some f" and "rename_error e = None" and "to_csv e combined_df = Written s"
  shows "save e data_file fs combined_df new_records caller =
           \<lparr>new_count = len new_records,
            files = fs(data_file @ ''.backup_'' @ backup_stamp e \<mapsto> f,
                       data_file \<mapsto> \<lparr>content = s, st_mtime = write_time e\<rparr>),
            calls = [Rename data_file (data_file @ ''.backup_'' @ backup_stamp e),
                     ToCsv combined_df data_file],
            caller_df = Some caller\<rparr>"
proof -
  have "os_path_exists fs data_file" using assms(1) by (simp add: os_path_exists_def)
  moreover have "(fs(data_file := None, data_file @ ''.backup_'' @ backup_stamp e \<mapsto> f))
                   (data_file \<mapsto> \<lparr>content = s, st_mtime = write_time e\<rparr>) =
                 fs(data_file @ ''.backup_'' @ backup_stamp e \<mapsto> f,
                    data_file \<mapsto> \<lparr>content = s, st_mtime = write_time e\<rparr>)"
    by (rule ext) simp
  ultimately show ?thesis
    using assms by (simp add: save_def os_rename_backup write_csv_def Let_def)
qed

text \<open>
  C3. When reading the existing Dataset file raises (\<^verbatim>\<open>pd.read_csv\<close>, or the conversion of
  its date column), \<^verbatim>\<open>update_data_file\<close> goes on as if there were no Dataset: it saves the
  incoming frame as it is, exactly as the branch for a missing file does. For a non-empty incoming frame whose save goes
  through (the rename and the write do not raise), it returns the number of incoming
  records, all of them counted as new; the frame written is the incoming frame, with
  nothing of the unreadable file in it; the unreadable file is kept under the backup
  name; and the caller's frame is untouched.
\<close>

theorem corrupt_existing_file_recovery:
  assumes "fs data_file = Some f"
    and "load_existing e (content f) = Inl x"
    and "\<not> empty new_df"
  shows "update_data_file e data_file fs (Some new_df) = save e data_file fs new_df new_df new_df \<and>
         (rename_error e = None \<and> to_csv e new_df = Written s \<longrightarrow>
            update_data_file e data_file fs (Some new_df) =
              \<lparr>new_count = len new_df,
               files = fs(data_file @ ''.backup_'' @ backup_stamp e \<mapsto> f,
                          data_file \<mapsto> \<lparr>content = s, st_mtime = write_time e\<rparr>),
               calls = [Rename data_file (data_file @ ''.backup_'' @ backup_stamp e),
                        ToCsv new_df data_file],
               caller_df = Some new_df\<rparr>)"
proof -
  from assms(2) have "merge_existing e (content f) new_df = (new_df, Inl x)"
    by (rule merge_existing_unreadable)
  then have *: "update_data_file e data_file fs (Some new_df) =
                  save e data_file fs new_df new_df new_df"
    using assms(1,3) by (simp add: update_data_file_def)
  show ?thesis
    using * save_existing_written [where fs = fs and data_file = data_file and e = e
        and combined_df = new_df and s = s and new_records = new_df and caller = new_df,
        OF assms(1)]
    by simp
qed

theorem corrupt_existing_file_recovery_witness:
  "\<not> empty incoming_df \<and>
   update_data_file demo_env ''data.csv'' corrupt_fs (Some incoming_df) =
     \<lparr>new_count = 2,
      files = [''data.csv.backup_20240102_093000'' \<mapsto> corrupt,
               ''data.csv'' \<mapsto>
                 \<lparr>content = ''symbol,date\<newline>XYZ,2024-01-01 00:00:00\<newline>XYZ,2024-01-02 00:00:00\<newline>'',
                  st_mtime = jan2\<rparr>],
      calls = [Rename ''data.csv'' ''data.csv.backup_20240102_093000'',
               ToCsv incoming_df ''data.csv''],
      caller_df = Some incoming_df\<rparr>"
proof -
  have 1: "corrupt_fs ''data.csv'' = Some corrupt"
    by (simp add: corrupt_fs_def)
  have 2: "load_existing demo_env (content corrupt) = Inl (Exception ''ParserError'')"
    by (simp add: load_existing_def demo_env_def corrupt_def)
  have 3: "\<not> empty incoming_df"
    by (simp add: empty_def incoming_df_def)
  have 4: "to_csv demo_env incoming_df =
             Written ''symbol,date\<newline>XYZ,2024-01-01 00:00:00\<newline>XYZ,2024-01-02 00:00:00\<newline>''"
    by (simp add: demo_env_def demo_to_csv_def incoming_df_def demo_csv_cell_def
          demo_str_timestamp_def jan1_def jan2_def)
  have 5: "rename_error demo_env = None" "backup_stamp demo_env = ''20240102_093000''"
    "write_time demo_env = jan2" "len incoming_df = 2"
    by (simp_all add: demo_env_def len_def incoming_df_def)
  have 6: "corrupt_fs(''data.csv.backup_20240102_093000'' \<mapsto> corrupt,
             ''data.csv'' \<mapsto>
                 \<lparr>content = ''symbol,date\<newline>XYZ,2024-01-01 00:00:00\<newline>XYZ,2024-01-02 00:00:00\<newline>'',
                  st_mtime = jan2\<rparr>) =
           [''data.csv.backup_20240102_093000'' \<mapsto> corrupt,
               ''data.csv'' \<mapsto>
                 \<lparr>content = ''symbol,date\<newline>XYZ,2024-01-01 00:00:00\<newline>XYZ,2024-01-02 00:00:00\<newline>'',
                  st_mtime = jan2\<rparr>]"
    by (rule ext) (simp add: corrupt_fs_def)
  from corrupt_existing_file_recovery
    [where fs = corrupt_fs and data_file = "''data.csv''" and e = demo_env
      and s = "''symbol,date\<newline>XYZ,2024-01-01 00:00:00\<newline>XYZ,2024-01-02 00:00:00\<newline>''", OF 1 2 3,
      THEN conjunct2]
    4 5 6 3
  show ?thesis
    by simp
qed

lemma demo_merge_calls:
  "calls (update_data_file demo_env ''data.csv'' stored_fs (Some incoming_df)) =
     [Rename ''data.csv'' ''data.csv.backup_20240102_093000'', ToCsv merged_df ''data.csv'']"
  by code_simp

lemma demo_merge_files:
  "files (update_data_file demo_env ''data.csv'' stored_fs (Some incoming_df)) ''data.csv'' =
     Some \<lparr>content = ''symbol,date,secVal,tdpTransactionType,buyQuantity\<newline>XYZ,2024-01-02 00:00:00,,,\<newline>XYZ,2024-01-01 00:00:00,,,\<newline>ABC,2024-01-01 00:00:00,100,Buy,10\<newline>'',
           st_mtime = jan2\<rparr>"
  by code_simp

lemma save_existing_calls:
  assumes "fs data_file = Some f"
    and "ToCsv df p \<in> set (calls (save e data_file fs combined_df new_records caller))"
  shows "df = combined_df \<and> p = data_file \<and> rename_error e = None \<and>
         (\<exists>s. to_csv e combined_df = Written s)"
  using assms
  by (auto simp: save_def write_csv_def os_rename_def os_path_exists_def Let_def
        split: option.splits to_csv_result.splits if_splits)

lemma update_data_file_noop_or_save:
  "(calls (update_data_file e data_file fs new_df_arg) = [] \<and>
    files (update_data_file e data_file fs new_df_arg) = fs) \<or>
   (\<exists>combined_df new_records caller.
      update_data_file e data_file fs new_df_arg =
        save e data_file fs combined_df new_records caller)"
  by (auto simp: update_data_file_def
        split: option.splits if_splits prod.splits sum.splits merged.splits)

lemma save_existing_changed:
  assumes "fs data_file = Some f"
    and "files (save e data_file fs combined_df new_records caller) \<noteq> fs"
  shows "(\<exists>rest. calls (save e data_file fs combined_df new_records caller) =
            Rename data_file (data_file @ ''.backup_'' @ backup_stamp e) # rest) \<and>
         files (save e data_file fs combined_df new_records caller)
           (data_file @ ''.backup_'' @ backup_stamp e) = Some f"
  using assms
  by (auto simp: save_def write_csv_def os_rename_def os_path_exists_def Let_def
        split: option.splits to_csv_result.splits if_splits)

text \<open>
  C5. Let a file exist at the path of the Dataset. Whenever \<^verbatim>\<open>update_data_file\<close> writes
  the Dataset, the write is its second file operation and the first is \<^verbatim>\<open>os.rename\<close> of
  the existing file to the path followed by \<^verbatim>\<open>.backup_\<close> and the current-time stamp. The
  rename moves the file (after it nothing is left at the path), and the write then
  starts from that file system: at the end the backup name holds the previous file,
  whole, and the path holds the new content. More generally, whenever the call changes
  the file system at all (also through a write that fails half way), the rename to
  the backup name came first and the backup holds the previous file.
\<close>

theorem backup_before_overwrite:
  assumes "fs data_file = Some f"
  shows "(ToCsv df p \<in> set (calls (update_data_file e data_file fs new_df_arg)) \<longrightarrow>
            p = data_file \<and>
            calls (update_data_file e data_file fs new_df_arg) =
              [Rename data_file (data_file @ ''.backup_'' @ backup_stamp e), ToCsv df data_file] \<and>
            os_rename e fs data_file (data_file @ ''.backup_'' @ backup_stamp e) =
              Inr (fs(data_file := None, data_file @ ''.backup_'' @ backup_stamp e \<mapsto> f)) \<and>
            (\<exists>s. to_csv e df = Written s \<and>
                 files (update_data_file e data_file fs new_df_arg) =
                   fs(data_file @ ''.backup_'' @ backup_stamp e \<mapsto> f,
                      data_file \<mapsto> \<lparr>content = s, st_mtime = write_time e\<rparr>))) \<and>
         (files (update_data_file e data_file fs new_df_arg) \<noteq> fs \<longrightarrow>
            (\<exists>rest. calls (update_data_file e data_file fs new_df_arg) =
               Rename data_file (data_file @ ''.backup_'' @ backup_stamp e) # rest) \<and>
            files (update_data_file e data_file fs new_df_arg)
              (data_file @ ''.backup_'' @ backup_stamp e) = Some f)"
proof (intro conjI impI)
  assume w: "ToCsv df p \<in> set (calls (update_data_file e data_file fs new_df_arg))"
  with update_data_file_noop_or_save [of e data_file fs new_df_arg]
  obtain combined_df new_records caller
    where upd: "update_data_file e data_file fs new_df_arg =
                  save e data_file fs combined_df new_records caller"
    by auto
  from w have "ToCsv df p \<in> set (calls (save e data_file fs combined_df new_records caller))"
    by (simp add: upd)
  from save_existing_calls [where fs = fs and data_file = data_file, OF assms this]
  obtain s where eqs: "df = combined_df" "p = data_file" "rename_error e = None"
    and s: "to_csv e combined_df = Written s"
    by blast
  from save_existing_written [where fs = fs and data_file = data_file, OF assms eqs(3) s]
  have sv: "save e data_file fs combined_df new_records caller =
          \<lparr>new_count = len new_records,
           files = fs(data_file @ ''.backup_'' @ backup_stamp e \<mapsto> f,
                      data_file \<mapsto> \<lparr>content = s, st_mtime = write_time e\<rparr>),
           calls = [Rename data_file (data_file @ ''.backup_'' @ backup_stamp e),
                    ToCsv combined_df data_file],
           caller_df = Some caller\<rparr>" .
  show "p = data_file" by (rule eqs(2))
  show "calls (update_data_file e data_file fs new_df_arg) =
          [Rename data_file (data_file @ ''.backup_'' @ backup_stamp e), ToCsv df data_file]"
    by (simp add: upd sv eqs(1))
  show "os_rename e fs data_file (data_file @ ''.backup_'' @ backup_stamp e) =
          Inr (fs(data_file := None, data_file @ ''.backup_'' @ backup_stamp e \<mapsto> f))"
    using assms eqs(3) by (rule os_rename_backup)
  show "\<exists>s. to_csv e df = Written s \<and>
            files (update_data_file e data_file fs new_df_arg) =
              fs(data_file @ ''.backup_'' @ backup_stamp e \<mapsto> f,
                 data_file \<mapsto> \<lparr>content = s, st_mtime = write_time e\<rparr>)"
    using s by (simp add: upd sv eqs(1))
next
  assume c: "files (update_data_file e data_file fs new_df_arg) \<noteq> fs"
  with update_data_file_noop_or_save [of e data_file fs new_df_arg]
  obtain combined_df new_records caller
    where upd: "update_data_file e data_file fs new_df_arg =
                  save e data_file fs combined_df new_records caller"
    by auto
  from c have "files (save e data_file fs combined_df new_records caller) \<noteq> fs"
    by (simp add: upd)
  from save_existing_changed [where fs = fs and data_file = data_file, OF assms this]
  show "\<exists>rest. calls (update_data_file e data_file fs new_df_arg) =
               Rename data_file (data_file @ ''.backup_'' @ backup_stamp e) # rest"
    and "files (update_data_file e data_file fs new_df_arg)
              (data_file @ ''.backup_'' @ backup_stamp e) = Some f"
    by (simp_all add: upd)
qed

theorem backup_before_overwrite_witness:
  "calls (update_data_file demo_env ''data.csv'' stored_fs (Some incoming_df)) =
     [Rename ''data.csv'' ''data.csv.backup_20240102_093000'', ToCsv merged_df ''data.csv''] \<and>
   os_rename demo_env stored_fs ''data.csv'' ''data.csv.backup_20240102_093000'' =
     Inr (stored_fs(''data.csv'' := None, ''data.csv.backup_20240102_093000'' \<mapsto> stored)) \<and>
   files (update_data_file demo_env ''data.csv'' stored_fs (Some incoming_df))
       ''data.csv.backup_20240102_093000'' = Some stored \<and>
   files (update_data_file demo_env ''data.csv'' stored_fs (Some incoming_df)) ''data.csv'' =
     Some \<lparr>content = ''symbol,date,secVal,tdpTransactionType,buyQuantity\<newline>XYZ,2024-01-02 00:00:00,,,\<newline>XYZ,2024-01-01 00:00:00,,,\<newline>ABC,2024-01-01 00:00:00,100,Buy,10\<newline>'',
           st_mtime = jan2\<rparr>"
proof -
  have 1: "stored_fs ''data.csv'' = Some stored"
    by (simp add: stored_fs_def)
  have 2: "ToCsv merged_df ''data.csv''
             \<in> set (calls (update_data_file demo_env ''data.csv'' stored_fs (Some incoming_df)))"
    by (simp add: demo_merge_calls)
  have 3: "backup_stamp demo_env = ''20240102_093000''"
    by (simp add: demo_env_def)
  from backup_before_overwrite
    [where fs = stored_fs and data_file = "''data.csv''" and e = demo_env
      and df = merged_df and p = "''data.csv''" and new_df_arg = "Some incoming_df", OF 1,
      THEN conjunct1, THEN mp, OF 2] 3
  have "calls (update_data_file demo_env ''data.csv'' stored_fs (Some incoming_df)) =
          [Rename ''data.csv'' ''data.csv.backup_20240102_093000'', ToCsv merged_df ''data.csv''] \<and>
        os_rename demo_env stored_fs ''data.csv'' ''data.csv.backup_20240102_093000'' =
          Inr (stored_fs(''data.csv'' := None, ''data.csv.backup_20240102_093000'' \<mapsto> stored)) \<and>
        files (update_data_file demo_env ''data.csv'' stored_fs (Some incoming_df))
          ''data.csv.backup_20240102_093000'' = Some stored"
    by auto
  with demo_merge_files show ?thesis by simp
qed

text \<open>
  C9. When the existing Dataset file loads, \<^verbatim>\<open>update_data_file\<close> assigns the column
  \<^verbatim>\<open>unique_key\<close> to the frame it was passed and never takes it off: however the call
  ends (no new record, a save, a failed save, an exception later in the block), the
  caller's frame is the incoming frame with a \<^verbatim>\<open>unique_key\<close> column holding each row's
  identity key.
\<close>

theorem update_data_file_mutates_caller:
  assumes "fs data_file = Some f"
    and "load_existing e (content f) = Inr existing_df"
    and "\<not> empty new_df"
  shows "caller_df (update_data_file e data_file fs (Some new_df)) =
           Some (add_unique_key e new_df) \<and>
         ''unique_key'' \<in> set (columns (add_unique_key e new_df)) \<and>
         getitem (add_unique_key e new_df) ''unique_key'' =
           map (\<lambda>row. Some (Str (create_unique_key e row))) (rows new_df)"
proof -
  obtain df' outcome where m: "merge_existing e (content f) new_df = (df', outcome)"
    by (cases "merge_existing e (content f) new_df")
  with fst_merge_existing [OF assms(2), of new_df] have df': "df' = add_unique_key e new_df"
    by simp
  have "caller_df (update_data_file e data_file fs (Some new_df)) = Some df'"
    using assms(1,3) m
    by (simp add: update_data_file_def caller_df_save split: sum.splits merged.splits)
  with df' show ?thesis
    by (simp add: columns_add_unique_key getitem_add_unique_key)
qed

theorem update_data_file_mutates_caller_witness:
  "\<not> empty refetched_df \<and> ''unique_key'' \<notin> set (columns refetched_df) \<and>
   caller_df (update_data_file demo_env ''data.csv'' stored_fs (Some refetched_df)) =
     Some \<lparr>columns = [''symbol'', ''date'', ''secVal'', ''tdpTransactionType'', ''buyQuantity'',
                       ''unique_key''],
           rows = [[(''symbol'', Str ''ABC''), (''date'', Timestamp jan1),
                    (''secVal'', Val ''100''), (''tdpTransactionType'', Str ''Buy''),
                    (''buyQuantity'', Val ''999''),
                    (''unique_key'', Str ''ABC|2024-01-01 00:00:00|100|Buy'')]]\<rparr>"
proof -
  have 1: "stored_fs ''data.csv'' = Some stored"
    by (simp add: stored_fs_def)
  have 2: "load_existing demo_env (content stored) =
             Inr (setitem stored_df ''date'' [Timestamp jan1])"
    by (simp add: load_existing_def demo_env_def convert_date_def stored_df_def getitem_def
          demo_to_datetime_def len_def datetime_cell_def stored_def stored_text_def)
  have 3: "\<not> empty refetched_df"
    by (simp add: empty_def refetched_df_def)
  have 4: "add_unique_key demo_env refetched_df =
             \<lparr>columns = [''symbol'', ''date'', ''secVal'', ''tdpTransactionType'', ''buyQuantity'',
                         ''unique_key''],
              rows = [[(''symbol'', Str ''ABC''), (''date'', Timestamp jan1),
                       (''secVal'', Val ''100''), (''tdpTransactionType'', Str ''Buy''),
                       (''buyQuantity'', Val ''999''),
                       (''unique_key'', Str ''ABC|2024-01-01 00:00:00|100|Buy'')]]\<rparr>"
    by code_simp
  have 5: "''unique_key'' \<notin> set (columns refetched_df)"
    by (simp add: refetched_df_def)
  from update_data_file_mutates_caller
    [where fs = stored_fs and data_file = "''data.csv''" and e = demo_env, OF 1 2 3] 3 4 5
  show ?thesis by simp
qed

text \<open>
  C6. The branch that merges into an existing Dataset sorts by date before it saves
  (line 270); the branch that creates the file and the handler for an unreadable file
  save the incoming frame as it came. Two incoming records, the earlier first, with no
  file on disk or with an unreadable one: both are counted as new and the frame
  written is the incoming frame, which is not sorted by date descending. Merged into a
  readable Dataset, the same records are written latest first.
\<close>

theorem first_save_not_sorted:
  "update_data_file demo_env ''data.csv'' Map.empty (Some incoming_df) =
     \<lparr>new_count = 2,
      files = [''data.csv'' \<mapsto>
                 \<lparr>content = ''symbol,date\<newline>XYZ,2024-01-01 00:00:00\<newline>XYZ,2024-01-02 00:00:00\<newline>'',
                  st_mtime = jan2\<rparr>],
      calls = [ToCsv incoming_df ''data.csv''],
      caller_df = Some incoming_df\<rparr> \<and>
   calls (update_data_file demo_env ''data.csv'' corrupt_fs (Some incoming_df)) =
     [Rename ''data.csv'' ''data.csv.backup_20240102_093000'', ToCsv incoming_df ''data.csv''] \<and>
   \<not> date_descending incoming_df \<and>
   calls (update_data_file demo_env ''data.csv'' stored_fs (Some incoming_df)) =
     [Rename ''data.csv'' ''data.csv.backup_20240102_093000'', ToCsv merged_df ''data.csv''] \<and>
   date_descending merged_df"
proof -
  have "to_csv demo_env incoming_df =
          Written ''symbol,date\<newline>XYZ,2024-01-01 00:00:00\<newline>XYZ,2024-01-02 00:00:00\<newline>''"
    by (simp add: demo_env_def demo_to_csv_def incoming_df_def demo_csv_cell_def
          demo_str_timestamp_def jan1_def jan2_def)
  moreover have "\<not> empty incoming_df"
    by (simp add: empty_def incoming_df_def)
  moreover have "len incoming_df = 2" "write_time demo_env = jan2"
    by (simp_all add: len_def incoming_df_def demo_env_def)
  ultimately have a: "update_data_file demo_env ''data.csv'' Map.empty (Some incoming_df) =
     \<lparr>new_count = 2,
      files = [''data.csv'' \<mapsto>
                 \<lparr>content = ''symbol,date\<newline>XYZ,2024-01-01 00:00:00\<newline>XYZ,2024-01-02 00:00:00\<newline>'',
                  st_mtime = jan2\<rparr>],
      calls = [ToCsv incoming_df ''data.csv''],
      caller_df = Some incoming_df\<rparr>"
    by (simp add: update_data_file_def save_def write_csv_def os_path_exists_def)
  have b: "calls (update_data_file demo_env ''data.csv'' corrupt_fs (Some incoming_df)) =
     [Rename ''data.csv'' ''data.csv.backup_20240102_093000'', ToCsv incoming_df ''data.csv'']"
    by code_simp
  have c: "\<not> date_descending incoming_df"
    by (simp add: date_descending_def getitem_def incoming_df_def jan1_def jan2_def)
  have d: "date_descending merged_df"
    by (simp add: date_descending_def getitem_def merged_df_def jan1_def jan2_def)
  from a b c d demo_merge_calls show ?thesis by simp
qed

section \<open>Properties of the checkpoint and the date window\<close>

text \<open>
  C2. The \<open>from_date\<close> of the window is never earlier than the reading of the clock at
  line 118 minus 30 days, whatever the checkpoint (the \<open>from_date\<close> passed in, or what
  \<^verbatim>\<open>get_last_update_time\<close> returns). A checkpoint earlier than that bound is replaced by
  exactly the bound, any other is kept; and the dates the request is made with are
  this window's, formatted.
\<close>

theorem window_clamp:
  "now_max_back clk - timedelta_days 30 \<le> fst (date_window e data_file fs clk from_date to_date) \<and>
   fst (date_window e data_file fs clk from_date to_date) =
     (let checkpoint = (case from_date of
                          None \<Rightarrow> get_last_update_time e data_file fs (now_last_update clk)
                        | Some t \<Rightarrow> t)
      in if checkpoint < now_max_back clk - timedelta_days 30
         then now_max_back clk - timedelta_days 30 else checkpoint) \<and>
   fetch_insider_data e n data_file fs clk from_date to_date =
     request_data n (strftime_dmy n (fst (date_window e data_file fs clk from_date to_date)))
       (strftime_dmy n (snd (date_window e data_file fs clk from_date to_date)))"
  by (simp add: date_window_def fetch_insider_data_def Let_def)

theorem window_clamp_witness:
  "fst (date_window demo_env ''data.csv'' stored_fs demo_clock (Some 0) None) =
     jan2 - timedelta_days 30 \<and>
   fst (date_window demo_env ''data.csv'' stored_fs
          \<lparr>now_to_date = jan2 + timedelta_days 45, now_last_update = jan2 + timedelta_days 45,
           now_max_back = jan2 + timedelta_days 45\<rparr> None None) =
     jan2 + timedelta_days 15 \<and>
   fst (date_window demo_env ''data.csv'' stored_fs demo_clock None None) = jan1"
proof -
  have "get_last_update_time demo_env ''data.csv'' stored_fs t = jan1" for t
    by code_simp
  then show ?thesis
    using window_clamp [of demo_clock demo_env "''data.csv''" stored_fs "Some 0" None demo_net]
      window_clamp [of "\<lparr>now_to_date = jan2 + timedelta_days 45,
          now_last_update = jan2 + timedelta_days 45, now_max_back = jan2 + timedelta_days 45\<rparr>"
        demo_env "''data.csv''" stored_fs None None demo_net]
      window_clamp [of demo_clock demo_env "''data.csv''" stored_fs None None demo_net]
    by (simp add: demo_clock_def jan1_def jan2_def timedelta_days_def)
qed

lemma last_update_try_Inl:
  "last_update_try e f now = Inl x \<longleftrightarrow>
     read_csv e (content f) = Inl x \<or>
     (\<exists>df. read_csv e (content f) = Inr df \<and> \<not> empty df \<and> ''date'' \<in> set (columns df) \<and>
           convert_date e df = Inl x)"
  by (auto simp: last_update_try_def split: sum.splits option.splits if_splits)

lemma last_update_try_FileMtime:
  "last_update_try e f now = Inr (FileMtime t) \<longleftrightarrow>
     t = st_mtime f \<and>
     (\<exists>df. read_csv e (content f) = Inr df \<and> \<not> empty df \<and>
           (''date'' \<notin> set (columns df) \<or>
            (\<exists>df'. convert_date e df = Inr df' \<and> series_max (getitem df' ''date'') = None)))"
  by (auto simp: last_update_try_def split: sum.splits option.splits if_splits)

lemma last_update_checkpoint_FileMtime:
  "last_update_checkpoint e data_file fs now = FileMtime t \<longleftrightarrow>
     (\<exists>f. fs data_file = Some f \<and> last_update_try e f now = Inr (FileMtime t))"
  by (auto simp: last_update_checkpoint_def split: option.splits sum.splits)

text \<open>
  C10. \<^verbatim>\<open>get_last_update_time\<close> always returns a time: every exception of its \<^verbatim>\<open>try\<close>
  block is caught. It returns now minus 7 days when the file does not exist, when the
  file reads as an empty frame, and when reading it or converting its dates raises. It
  returns the file's modification time exactly when the file was read, is not empty,
  and has no date column or no date that converts.
\<close>

theorem get_last_update_time_total:
  "(fs data_file = None \<longrightarrow>
      get_last_update_time e data_file fs now = now - timedelta_days 7) \<and>
   (\<forall>f df. fs data_file = Some f \<and> read_csv e (content f) = Inr df \<and> empty df \<longrightarrow>
      get_last_update_time e data_file fs now = now - timedelta_days 7) \<and>
   (\<forall>f x. fs data_file = Some f \<and> last_update_try e f now = Inl x \<longrightarrow>
      get_last_update_time e data_file fs now = now - timedelta_days 7) \<and>
   (\<forall>f x. fs data_file = Some f \<and> read_csv e (content f) = Inl x \<longrightarrow>
      last_update_try e f now = Inl x) \<and>
   (\<forall>t. last_update_checkpoint e data_file fs now = FileMtime t \<longleftrightarrow>
      (\<exists>f df. fs data_file = Some f \<and> t = st_mtime f \<and>
         read_csv e (content f) = Inr df \<and> \<not> empty df \<and>
         (''date'' \<notin> set (columns df) \<or>
          (\<exists>df'. convert_date e df = Inr df' \<and> series_max (getitem df' ''date'') = None)))) \<and>
   get_last_update_time e data_file fs now =
     checkpoint_value (last_update_checkpoint e data_file fs now)"
proof (intro conjI allI impI)
  assume "fs data_file = None"
  then show "get_last_update_time e data_file fs now = now - timedelta_days 7"
    by (simp add: get_last_update_time_def last_update_checkpoint_def)
next
  fix f df
  assume "fs data_file = Some f \<and> read_csv e (content f) = Inr df \<and> empty df"
  then show "get_last_update_time e data_file fs now = now - timedelta_days 7"
    by (simp add: get_last_update_time_def last_update_checkpoint_def last_update_try_def)
next
  fix f x
  assume "fs data_file = Some f \<and> last_update_try e f now = Inl x"
  then show "get_last_update_time e data_file fs now = now - timedelta_days 7"
    by (simp add: get_last_update_time_def last_update_checkpoint_def)
next
  fix f x
  assume "fs data_file = Some f \<and> read_csv e (content f) = Inl x"
  then show "last_update_try e f now = Inl x"
    by (simp add: last_update_try_Inl)
next
  fix t
  show "last_update_checkpoint e data_file fs now = FileMtime t \<longleftrightarrow>
      (\<exists>f df. fs data_file = Some f \<and> t = st_mtime f \<and>
         read_csv e (content f) = Inr df \<and> \<not> empty df \<and>
         (''date'' \<notin> set (columns df) \<or>
          (\<exists>df'. convert_date e df = Inr df' \<and> series_max (getitem df' ''date'') = None)))"
    unfolding last_update_checkpoint_FileMtime last_update_try_FileMtime by blast
next
  show "get_last_update_time e data_file fs now =
          checkpoint_value (last_update_checkpoint e data_file fs now)"
    by (simp add: get_last_update_time_def)
qed

theorem get_last_update_time_total_witness:
  "get_last_update_time demo_env ''data.csv'' Map.empty jan2 = jan2 - timedelta_days 7 \<and>
   get_last_update_time demo_env ''data.csv''
     [''data.csv'' \<mapsto> \<lparr>content = ''symbol,date\<newline>'', st_mtime = jan1\<rparr>] jan2 = jan2 - timedelta_days 7 \<and>
   get_last_update_time demo_env ''data.csv'' corrupt_fs jan2 = jan2 - timedelta_days 7 \<and>
   last_update_checkpoint demo_env ''data.csv''
     [''data.csv'' \<mapsto> \<lparr>content = ''symbol\<newline>ABC\<newline>'', st_mtime = jan1\<rparr>] jan2 = FileMtime jan1"
proof -
  have 1: "read_csv demo_env ''symbol,date\<newline>'' = Inr \<lparr>columns = [''symbol'', ''date''], rows = []\<rparr>"
    "read_csv demo_env ''%PDF-1.7'' = Inl (Exception ''ParserError'')"
    "read_csv demo_env ''symbol\<newline>ABC\<newline>'' =
       Inr \<lparr>columns = [''symbol''], rows = [[(''symbol'', Str ''ABC'')]]\<rparr>"
    by (simp_all add: demo_env_def stored_text_def)
  have 2: "last_update_try demo_env corrupt jan2 = Inl (Exception ''ParserError'')"
    by (simp add: last_update_try_def 1 corrupt_def)
  show ?thesis
    using get_last_update_time_total [of Map.empty "''data.csv''" demo_env jan2]
      get_last_update_time_total
        [of "[''data.csv'' \<mapsto> \<lparr>content = ''symbol,date\<newline>'', st_mtime = jan1\<rparr>]" "''data.csv''" demo_env jan2]
      get_last_update_time_total [of corrupt_fs "''data.csv''" demo_env jan2]
      get_last_update_time_total
        [of "[''data.csv'' \<mapsto> \<lparr>content = ''symbol\<newline>ABC\<newline>'', st_mtime = jan1\<rparr>]" "''data.csv''"
          demo_env jan2]
      1 2
    by (simp add: empty_def corrupt_fs_def)
qed

section \<open>Properties of the fetch\<close>

lemma content_type_json:
  "headers r ''content-type'' = Some ct \<Longrightarrow> headers_get r ''content-type'' dflt = ct"
  by (simp add: headers_get_def)

text \<open>
  C7. A response with status 200, a body that decodes, a JSON content type and a JSON
  object whose \<^verbatim>\<open>data\<close> field is the empty list: the fetch of \<^verbatim>\<open>cron_script.py\<close> returns the
  triple of an empty frame and the two formatted dates, which is not the \<^verbatim>\<open>None\<close> of
  its failures; the fetch of \<^verbatim>\<open>main.py\<close> returns \<^verbatim>\<open>None\<close>, as it does for a failure.
\<close>

theorem fetch_empty_data_list:
  assumes "date_window e data_file fs clk from_date to_date = (fd, td)"
    and "session_get n (api_params (strftime_dmy n fd) (strftime_dmy n td)) = Inr r"
    and "session_get n (api_params (strftime_dmy n (today - timedelta_days days_back))
           (strftime_dmy n today)) = Inr r"
    and "status_code r = 200"
    and "response_content n r = Inr text"
    and "headers r ''content-type'' = Some ct"
    and "contains ct ''application/json''"
    and "json_loads n text = Inr (JObj kvs)"
    and "map_of kvs ''data'' = Some (JArr [])"
  shows "fetch_insider_data e n data_file fs clk from_date to_date =
           Some (DataFrame_empty, strftime_dmy n fd, strftime_dmy n td) \<and>
         fetch_insider_data e n data_file fs clk from_date to_date \<noteq> None \<and>
         empty (fst (the (fetch_insider_data e n data_file fs clk from_date to_date))) \<and>
         fetch_insider_data_main n today days_back = None"
proof -
  have cron: "fetch_insider_data e n data_file fs clk from_date to_date =
                Some (DataFrame_empty, strftime_dmy n fd, strftime_dmy n td)"
    using assms(1,2,4,5,7,8,9) content_type_json [OF assms(6)]
    by (simp add: fetch_insider_data_def request_data_def)
  have main: "fetch_insider_data_main n today days_back = None"
    using assms(3,4,5,7,8,9) content_type_json [OF assms(6)]
    by (simp add: fetch_insider_data_main_def Let_def)
  from cron main show ?thesis
    by (simp add: empty_def DataFrame_empty_def)
qed

lemma demo_response_facts:
  "status_code empty_data_response = 200"
  "response_content demo_net empty_data_response = Inr (body_text empty_data_response)"
  "headers empty_data_response ''content-type'' = Some ''application/json; charset=utf-8''"
  "contains ''application/json; charset=utf-8'' ''application/json''"
  "json_loads demo_net (body_text empty_data_response) = Inr (JObj [(''data'', JArr [])])"
  "map_of [(''data'', JArr [])] ''data'' = Some (JArr [])"
  by (simp_all add: empty_data_response_def demo_net_def response_content_def headers_get_def)

theorem fetch_empty_data_list_witness:
  "fetch_insider_data demo_env demo_net ''data.csv'' stored_fs demo_clock None None =
     Some (DataFrame_empty, ''01-01-2024'', ''02-01-2024'') \<and>
   fetch_insider_data_main demo_net jan2 90 = None"
proof -
  have w: "date_window demo_env ''data.csv'' stored_fs demo_clock None None = (jan1, jan2)"
    by code_simp
  have g: "session_get demo_net p = Inr empty_data_response" for p
    by (simp add: demo_net_def)
  have s: "strftime_dmy demo_net jan1 = ''01-01-2024''" "strftime_dmy demo_net jan2 = ''02-01-2024''"
    by (simp_all add: demo_net_def jan1_def jan2_def)
  from fetch_empty_data_list [OF w g g demo_response_facts] s show ?thesis
    by simp
qed

text \<open>
  The one-shot scraper on the same response: \<^verbatim>\<open>main.py\<close> answers an empty \<^verbatim>\<open>data\<close> list
  with \<^verbatim>\<open>None\<close>.
\<close>

theorem main_fetch_empty_data_list_is_None:
  "session_get demo_net (api_params ''04-10-2023'' ''02-01-2024'') = Inr empty_data_response \<and>
   status_code empty_data_response = 200 \<and>
   headers empty_data_response ''content-type'' = Some ''application/json; charset=utf-8'' \<and>
   json_loads demo_net (body_text empty_data_response) = Inr (JObj [(''data'', JArr [])]) \<and>
   fetch_insider_data_main demo_net jan2 90 = None"
proof -
  have "fetch_insider_data_main demo_net jan2 90 = None"
    by code_simp
  then show ?thesis
    by (simp add: demo_response_facts) (simp add: demo_net_def)
qed

end
